theory Spec2Isabelle
  imports Complex_Main
begin

section \<open>Errors\<close>

text \<open>
  The Python exceptions the modelled functions can raise, with the message of the
  \<^verbatim>\<open>raise\<close> statement. A function that can raise returns \<open>error + 'a\<close>.
\<close>

datatype error = ValueError string | IndexError string | TypeError string

section \<open>Shell validation of \<^verbatim>\<open>compute_sh_coefficients\<close>\<close>

text \<open>
  Modelled from the spec: \<^verbatim>\<open>identify_shells\<close> of
  \<^verbatim>\<open>scilpy.gradients.bvec_bval_tools\<close> is imported by \<^verbatim>\<open>sh.py\<close> but is not
  among the sources. The spec describes it as classifying the gradient shells "by unique
  b-value clusters": the shell values are the distinct b-values of the table.
\<close>

definition identify_shells_spec :: "real list \<Rightarrow> real list" where
  "identify_shells_spec bvals = remdups bvals"

text \<open>
  \<^verbatim>\<open>compute_sh_coefficients\<close>, lines 90 to 117. The shell classifier is a parameter
  (\<open>identify_shells\<close>), and so is everything the function does after the check
  (\<open>fit\<close>: dropping the b0 volumes, the attenuation, dipy's \<^verbatim>\<open>sf_to_sh\<close> and the
  mask), which is only reached when the check passes.
\<close>

definition compute_sh_coefficients ::
  "(real list \<Rightarrow> real list) \<Rightarrow> 'r \<Rightarrow> real list \<Rightarrow> real \<Rightarrow> error + 'r" where
  "compute_sh_coefficients identify_shells fit bvals b0_threshold =
     (let shell_values = sort (identify_shells bvals)
      in if length shell_values \<noteq> 2 \<or> shell_values ! 0 > b0_threshold
         then Inl (ValueError ''Can only work on single shell signals.'')
         else Inr fit)"

section \<open>Numbers\<close>

text \<open>
  The arrays hold IEEE floating-point numbers. The model idealises them: a finite number is
  a real (no rounding, no overflow, one zero), and the three special values a division can
  produce are kept. The inputs of every function are finite, so arrays that no division
  has touched hold reals; an array a division has written holds \<open>fnum\<close>.
  Dividing a numpy array by zero warns and does not raise. Rounding is kept where a
  result is decided by it: in the sum that the default mask tests against zero, and in
  the storing of a number into an array of a given precision. Both are parameters.
\<close>

datatype fnum = Fin real | PInf | MInf | NaN

fun fdiv :: "fnum \<Rightarrow> fnum \<Rightarrow> fnum" where
  "fdiv (Fin a) (Fin b) =
     (if b = 0 then (if a = 0 then NaN else if 0 < a then PInf else MInf) else Fin (a / b))"
| "fdiv (Fin a) PInf = Fin 0"
| "fdiv (Fin a) MInf = Fin 0"
| "fdiv PInf (Fin b) = (if b < 0 then MInf else PInf)"
| "fdiv MInf (Fin b) = (if b < 0 then PInf else MInf)"
| "fdiv _ _ = NaN"

fun fmul :: "fnum \<Rightarrow> fnum \<Rightarrow> fnum" where
  "fmul (Fin a) (Fin b) = Fin (a * b)"
| "fmul (Fin a) PInf = (if a = 0 then NaN else if 0 < a then PInf else MInf)"
| "fmul (Fin a) MInf = (if a = 0 then NaN else if 0 < a then MInf else PInf)"
| "fmul PInf (Fin b) = (if b = 0 then NaN else if 0 < b then PInf else MInf)"
| "fmul MInf (Fin b) = (if b = 0 then NaN else if 0 < b then MInf else PInf)"
| "fmul PInf PInf = PInf"
| "fmul PInf MInf = MInf"
| "fmul MInf PInf = MInf"
| "fmul MInf MInf = PInf"
| "fmul _ _ = NaN"

text \<open>The comparison \<^verbatim>\<open>a < b\<close>: false whenever an operand is NaN.\<close>

fun fless :: "fnum \<Rightarrow> fnum \<Rightarrow> bool" where
  "fless (Fin a) (Fin b) = (a < b)"
| "fless (Fin a) PInf = True"
| "fless MInf (Fin b) = True"
| "fless MInf PInf = True"
| "fless _ _ = False"

text \<open>Python's built-in \<^verbatim>\<open>max(a, b)\<close>: the first argument unless the second is greater.\<close>

definition pymax :: "fnum \<Rightarrow> fnum \<Rightarrow> fnum" where
  "pymax a b = (if fless a b then b else a)"

section \<open>Arrays\<close>

text \<open>
  A volume of shape (X, Y, Z, K) is the list of its X*Y*Z voxels in C order (the order in
  which numpy's boolean-mask indexing and assignment traverse it), each voxel a list of K
  numbers; a 3-D mask is the list of its entries in the same order. A matrix is the list
  of its columns, so that \<^verbatim>\<open>np.dot(v, B)\<close> is the list of the dot products of \<open>v\<close>
  with the columns of \<open>B\<close>.
\<close>

type_synonym vec = "real list"

definition dot :: "vec \<Rightarrow> vec \<Rightarrow> real" where
  "dot u v = sum_list (map2 (*) u v)"

definition vecmat :: "vec \<Rightarrow> vec list \<Rightarrow> vec" where
  "vecmat v B = map (dot v) B"

text \<open>\<^verbatim>\<open>v.any()\<close>: some entry is non-zero.\<close>

definition any_nz :: "vec \<Rightarrow> bool" where
  "any_nz v = list_ex (\<lambda>x. x \<noteq> 0) v"

text \<open>
  \<^verbatim>\<open>np.sum(shm_coeff, axis=3).astype(bool)\<close>. The sum of the coefficients of a
  voxel is a floating-point sum, whose additions round: it is the parameter \<open>np_sum\<close>
  of the model, and with it of every function that builds the default mask. The cast to
  \<^verbatim>\<open>bool\<close> is false on zero only.
\<close>

definition default_mask :: "(vec \<Rightarrow> fnum) \<Rightarrow> vec list \<Rightarrow> bool list" where
  "default_mask np_sum shm_coeff = map (\<lambda>v. np_sum v \<noteq> Fin 0) shm_coeff"

text \<open>
  The sum in which no addition rounds. It is the floating-point sum on the voxels of the
  concrete examples, whose coefficients and partial sums are small integers.
\<close>

definition exact_sum :: "vec \<Rightarrow> fnum" where
  "exact_sum v = Fin (sum_list v)"

text \<open>\<^verbatim>\<open>arr[mask]\<close>: the voxels where the mask is true, in traversal order.\<close>

definition masked :: "'a list \<Rightarrow> bool list \<Rightarrow> 'a list" where
  "masked arr msk = map fst (filter snd (zip arr msk))"

definition count_nonzero :: "bool list \<Rightarrow> nat" where
  "count_nonzero msk = length (filter id msk)"

text \<open>
  \<^verbatim>\<open>out = np.zeros(...); out[mask] = vals\<close>: the values go to the true positions of the
  mask in traversal order, the other positions keep the fill value \<open>z\<close>. The values
  always number \<open>count_nonzero mask\<close> where the functions below assign, so the last
  equation is never reached.
\<close>

fun put_mask :: "bool list \<Rightarrow> 'a list \<Rightarrow> 'a \<Rightarrow> 'a list" where
  "put_mask [] vals z = []"
| "put_mask (False # m) vals z = z # put_mask m vals z"
| "put_mask (True # m) (v # vals) z = v # put_mask m vals z"
| "put_mask (True # m) [] z = z # put_mask m [] z"

text \<open>\<^verbatim>\<open>tmp[a:b] = vals\<close>, for values that number \<open>b - a\<close>.\<close>

definition set_slice :: "'a list \<Rightarrow> nat \<Rightarrow> nat \<Rightarrow> 'a list \<Rightarrow> 'a list" where
  "set_slice tmp a b vals = take a tmp @ vals @ drop b tmp"

text \<open>\<^verbatim>\<open>np.cumsum\<close>\<close>

fun cumsum_from :: "nat \<Rightarrow> nat list \<Rightarrow> nat list" where
  "cumsum_from acc [] = []"
| "cumsum_from acc (x # xs) = (acc + x) # cumsum_from (acc + x) xs"

definition cumsum :: "nat list \<Rightarrow> nat list" where
  "cumsum xs = cumsum_from 0 xs"

text \<open>
  \<^verbatim>\<open>np.array_split(ary, sections)\<close> for an integer number of sections: numpy raises
  ValueError when it is not positive; otherwise the first \<open>Ntotal mod sections\<close> chunks
  have one element more than the others, and the chunks are cut off in order.
\<close>

fun split_sizes :: "nat list \<Rightarrow> 'a list \<Rightarrow> 'a list list" where
  "split_sizes [] ary = []"
| "split_sizes (k # ks) ary = take k ary # split_sizes ks (drop k ary)"

definition array_split :: "'a list \<Rightarrow> int \<Rightarrow> error + 'a list list" where
  "array_split ary sections =
     (if sections \<le> 0 then Inl (ValueError ''number sections must be larger than 0.'')
      else
        let Ntotal = length ary;
            Nsections = nat sections;
            Neach_section = Ntotal div Nsections;
            extras = Ntotal mod Nsections;
            section_sizes =
              replicate extras (Neach_section + 1) @ replicate (Nsections - extras) Neach_section
        in Inr (split_sizes section_sizes ary))"

text \<open>A \<^verbatim>\<open>for\<close> loop over indices whose body can raise: the first error ends it.\<close>

fun run_loop :: "(nat \<Rightarrow> 's \<Rightarrow> error + 's) \<Rightarrow> nat list \<Rightarrow> 's \<Rightarrow> error + 's" where
  "run_loop body [] s = Inr s"
| "run_loop body (i # is) s =
     (case body i s of Inl e \<Rightarrow> Inl e | Inr s' \<Rightarrow> run_loop body is s')"

text \<open>The workers of \<^verbatim>\<open>pool.map\<close>: the results in the order of the chunks, or the
  first error a worker raised.\<close>

fun pool_map :: "('a \<Rightarrow> error + 'b) \<Rightarrow> 'a list \<Rightarrow> error + 'b list" where
  "pool_map f [] = Inr []"
| "pool_map f (x # xs) =
     (case f x of Inl e \<Rightarrow> Inl e
      | Inr y \<Rightarrow> (case pool_map f xs of Inl e \<Rightarrow> Inl e | Inr ys \<Rightarrow> Inr (y # ys)))"

text \<open>\<^verbatim>\<open>a.max()\<close> and \<^verbatim>\<open>a.min()\<close> raise ValueError on an empty array.\<close>

definition amax :: "vec \<Rightarrow> error + real" where
  "amax a = (case a of [] \<Rightarrow> Inl (ValueError ''zero-size array to reduction operation maximum which has no identity'')
             | x # xs \<Rightarrow> Inr (fold max xs x))"

definition amin :: "vec \<Rightarrow> error + real" where
  "amin a = (case a of [] \<Rightarrow> Inl (ValueError ''zero-size array to reduction operation minimum which has no identity'')
             | x # xs \<Rightarrow> Inr (fold min xs x))"

section \<open>Derived maps: \<^verbatim>\<open>maps_from_sh\<close>\<close>

text \<open>
  The sphere is the list of its vertices. The transform matrix \<open>B\<close> (dipy's
  \<^verbatim>\<open>sh_to_sf_matrix\<close>) and dipy's \<^verbatim>\<open>gfa\<close> are parameters of the model. The
  GFA of an ODF can be NaN, so \<open>gfa\<close> returns an \<open>fnum\<close> and the GFA arrays hold
  \<open>fnum\<close>.
\<close>

type_synonym vertex = "real \<times> real \<times> real"

text \<open>
  \<^verbatim>\<open>qa_map\<close> is created as a (N, npeaks) array of zeros; the assignment
  \<^verbatim>\<open>qa_map = peak_values[idx] - odf.min()\<close> rebinds the name to a 1-D array of npeaks
  entries. Where it is later assigned into \<open>n\<close> rows, numpy broadcasts the 1-D array to
  each of them.
\<close>

datatype qa_array = Qa2 "real list list" | Qa1 "real list"

fun qa_rows :: "nat \<Rightarrow> qa_array \<Rightarrow> real list list" where
  "qa_rows n (Qa2 rows) = rows"
| "qa_rows n (Qa1 row) = replicate n row"

record maps_state =
  nufo_map :: "real list"
  afd_max :: "real list"
  afd_sum :: "real list"
  rgb_map :: "fnum list list"
  gfa_map :: "fnum list"
  qa_map :: qa_array
  max_odf :: real
  global_max :: fnum

text \<open>
  Lines 392 to 394: \<^verbatim>\<open>np.dot(np.abs(sphere.vertices).T, odf)\<close>, divided by its
  Euclidean norm and multiplied by \<^verbatim>\<open>sum_odf\<close>.
\<close>

definition rgb_row :: "vertex list \<Rightarrow> vec \<Rightarrow> real \<Rightarrow> fnum list" where
  "rgb_row vertices odf sum_odf =
     (let rgb = [dot (map (\<lambda>(x, y, z). \<bar>x\<bar>) vertices) odf,
                 dot (map (\<lambda>(x, y, z). \<bar>y\<bar>) vertices) odf,
                 dot (map (\<lambda>(x, y, z). \<bar>z\<bar>) vertices) odf];
          nrm = sqrt (sum_list (map (\<lambda>r. r * r) rgb))
      in map (\<lambda>r. fmul (fdiv (Fin r) (Fin nrm)) (Fin sum_odf)) rgb)"

text \<open>\<^verbatim>\<open>np.sum(peak_indices[idx] > -1)\<close>\<close>

definition count_valid :: "int list \<Rightarrow> nat" where
  "count_valid ind = length (filter (\<lambda>i. -1 < i) ind)"

text \<open>
  The body of the loop of \<^verbatim>\<open>_maps_from_sh_loop\<close> (lines 386 to 403) at index
  \<open>idx\<close>. The test \<^verbatim>\<open>gfa_map[idx] < gfa_thr\<close> reads the value just stored,
  \<open>gfa odf\<close>; it is false when that value is NaN.
\<close>

definition maps_from_sh_body ::
  "vertex list \<Rightarrow> (vec \<Rightarrow> fnum) \<Rightarrow> vec list \<Rightarrow> real \<Rightarrow> vec list \<Rightarrow> vec list \<Rightarrow> int list list
     \<Rightarrow> nat \<Rightarrow> maps_state \<Rightarrow> error + maps_state" where
  "maps_from_sh_body vertices gfa B gfa_thr shm_coeff peak_values peak_indices idx st =
     (if any_nz (shm_coeff ! idx) then
        let odf = map (max 0) (vecmat (shm_coeff ! idx) B);
            sum_odf = sum_list odf;
            st1 = st\<lparr>max_odf := max (max_odf st) sum_odf\<rparr>;
            st2 = (if 0 < sum_odf
                   then st1\<lparr>rgb_map := (rgb_map st1)[idx := rgb_row vertices odf sum_odf]\<rparr>
                   else st1);
            st3 = st2\<lparr>gfa_map := (gfa_map st2)[idx := gfa odf]\<rparr>
        in if fless (gfa odf) (Fin gfa_thr) then
             (case amax odf of
                Inl e \<Rightarrow> Inl e
              | Inr m \<Rightarrow> Inr (st3\<lparr>global_max := pymax (global_max st3) (Fin m)\<rparr>))
           else if 0 < count_valid (peak_indices ! idx) then
             (case amax (peak_values ! idx) of
                Inl e \<Rightarrow> Inl e
              | Inr pmax \<Rightarrow>
                  (case amin odf of
                     Inl e \<Rightarrow> Inl e
                   | Inr omin \<Rightarrow>
                       (case peak_values ! idx of
                          [] \<Rightarrow> Inl (IndexError ''index 0 is out of bounds for axis 0 with size 0'')
                        | p0 # _ \<Rightarrow>
                            Inr (st3\<lparr>nufo_map := (nufo_map st3)
                                         [idx := real (count_valid (peak_indices ! idx))],
                                     afd_max := (afd_max st3)[idx := pmax],
                                     afd_sum := (afd_sum st3)
                                         [idx := sqrt (dot (shm_coeff ! idx) (shm_coeff ! idx))],
                                     qa_map := Qa1 (map (\<lambda>p. p - omin) (peak_values ! idx)),
                                     global_max := pymax (global_max st3) (Fin p0)\<rparr>))))
           else Inr st3
      else Inr st)"

text \<open>\<^verbatim>\<open>_maps_from_sh_loop\<close>; \<open>npeaks\<close> is \<^verbatim>\<open>peak_values.shape[1]\<close>.\<close>

definition maps_from_sh_loop ::
  "vertex list \<Rightarrow> (vec \<Rightarrow> fnum) \<Rightarrow> vec list \<Rightarrow> real \<Rightarrow> nat \<Rightarrow> vec list \<Rightarrow> vec list \<Rightarrow> int list list
     \<Rightarrow> error + maps_state" where
  "maps_from_sh_loop vertices gfa B gfa_thr npeaks shm_coeff peak_values peak_indices =
     (let data_shape = length shm_coeff
      in run_loop (maps_from_sh_body vertices gfa B gfa_thr shm_coeff peak_values peak_indices)
           [0..<length shm_coeff]
           \<lparr>nufo_map = replicate data_shape 0,
            afd_max = replicate data_shape 0,
            afd_sum = replicate data_shape 0,
            rgb_map = replicate data_shape (replicate 3 (Fin 0)),
            gfa_map = replicate data_shape (Fin 0),
            qa_map = Qa2 (replicate data_shape (replicate npeaks 0)),
            max_odf = 0,
            global_max = MInf\<rparr>)"


text \<open>
  The arrays and the two trackers of \<^verbatim>\<open>maps_from_sh\<close> at line 513, before they are
  brought back to the shape of the volume.
\<close>

record maps_tmp =
  tmp_nufo_map_array :: "real list"
  tmp_afd_max_array :: "real list"
  tmp_afd_sum_array :: "real list"
  tmp_rgb_map_array :: "fnum list list"
  tmp_gfa_map_array :: "fnum list"
  tmp_qa_map_array :: qa_array
  all_time_max_odf :: fnum
  all_time_global_max :: fnum

text \<open>The sequential path, lines 465 to 469: the loop's results are the arrays.\<close>

definition maps_from_sh_seq :: "maps_state \<Rightarrow> maps_tmp" where
  "maps_from_sh_seq st =
     \<lparr>tmp_nufo_map_array = nufo_map st,
      tmp_afd_max_array = afd_max st,
      tmp_afd_sum_array = afd_sum st,
      tmp_rgb_map_array = rgb_map st,
      tmp_gfa_map_array = gfa_map st,
      tmp_qa_map_array = qa_map st,
      all_time_max_odf = Fin (max_odf st),
      all_time_global_max = global_max st\<rparr>"

text \<open>
  The body of the loop over the workers' results, lines 504 to 512, for the result
  \<open>r\<close> of chunk \<open>i\<close>. Every right-hand side reads the arrays and trackers as they are
  before the iteration, as line 504 reads \<^verbatim>\<open>all_time_global_max\<close> before line 505
  assigns it.
\<close>

definition maps_from_sh_merge :: "nat list \<Rightarrow> nat \<times> maps_state \<Rightarrow> maps_tmp \<Rightarrow> maps_tmp" where
  "maps_from_sh_merge chunk_len ir t =
     (let i = fst ir; r = snd ir; a = chunk_len ! i; b = chunk_len ! (i + 1)
      in t\<lparr>all_time_max_odf := pymax (all_time_global_max t) (Fin (max_odf r)),
            all_time_global_max := pymax (all_time_global_max t) (global_max r),
            tmp_nufo_map_array := set_slice (tmp_nufo_map_array t) a b (nufo_map r),
            tmp_afd_max_array := set_slice (tmp_afd_max_array t) a b (afd_max r),
            tmp_afd_sum_array := set_slice (tmp_afd_sum_array t) a b (afd_sum r),
            tmp_rgb_map_array := set_slice (tmp_rgb_map_array t) a b (rgb_map r),
            tmp_gfa_map_array := set_slice (tmp_gfa_map_array t) a b (gfa_map r),
            tmp_qa_map_array :=
              Qa2 (set_slice (qa_rows 0 (tmp_qa_map_array t)) a b (qa_rows (b - a) (qa_map r)))\<rparr>)"

text \<open>
  \<^verbatim>\<open>maps_from_sh\<close> up to line 513. \<open>cpu_count\<close> is
  \<^verbatim>\<open>multiprocessing.cpu_count()\<close> and \<open>npeaks\<close> is \<^verbatim>\<open>peak_values.shape[3]\<close>.
  Indexing a volume with a mask of another shape raises IndexError. The result carries
  the mask in use.
\<close>

definition maps_from_sh_tmp ::
  "(vec \<Rightarrow> fnum) \<Rightarrow> int \<Rightarrow> (vec \<Rightarrow> fnum) \<Rightarrow> vec list \<Rightarrow> vec list \<Rightarrow> nat \<Rightarrow> vec list \<Rightarrow> int list list \<Rightarrow> vertex list
     \<Rightarrow> bool list option \<Rightarrow> real \<Rightarrow> int option \<Rightarrow> error + (bool list \<times> maps_tmp)" where
  "maps_from_sh_tmp np_sum cpu_count gfa B shm_coeff npeaks peak_values peak_indices vertices
       mask_opt gfa_thr nbr_processes =
     (let msk = (case mask_opt of None \<Rightarrow> default_mask np_sum shm_coeff | Some m \<Rightarrow> m);
          nbr = (case nbr_processes of
                   None \<Rightarrow> cpu_count
                 | Some n \<Rightarrow> if n < 0 then cpu_count else n)
      in if length msk = length shm_coeff \<and> length msk = length peak_values
              \<and> length msk = length peak_indices
         then
           let shm = masked shm_coeff msk;
               pvals = masked peak_values msk;
               pinds = masked peak_indices msk
           in if nbr = 1 then
                (case maps_from_sh_loop vertices gfa B gfa_thr npeaks shm pvals pinds of
                   Inl e \<Rightarrow> Inl e
                 | Inr st \<Rightarrow> Inr (msk, maps_from_sh_seq st))
              else
                (case array_split shm nbr of
                   Inl e \<Rightarrow> Inl e
                 | Inr shm_coeff_chunks \<Rightarrow>
                (case array_split pvals nbr of
                   Inl e \<Rightarrow> Inl e
                 | Inr peak_values_chunks \<Rightarrow>
                (case array_split pinds nbr of
                   Inl e \<Rightarrow> Inl e
                 | Inr peak_indices_chunks \<Rightarrow>
                (case pool_map
                        (\<lambda>(s, p, i). maps_from_sh_loop vertices gfa B gfa_thr npeaks s p i)
                        (zip shm_coeff_chunks (zip peak_values_chunks peak_indices_chunks)) of
                   Inl e \<Rightarrow> Inl e
                 | Inr results \<Rightarrow>
                     let chunk_len = cumsum (0 # map length shm_coeff_chunks);
                         n = count_nonzero msk
                     in Inr (msk,
                          fold (maps_from_sh_merge chunk_len) (enumerate 0 results)
                            \<lparr>tmp_nufo_map_array = replicate n 0,
                             tmp_afd_max_array = replicate n 0,
                             tmp_afd_sum_array = replicate n 0,
                             tmp_rgb_map_array = replicate n (replicate 3 (Fin 0)),
                             tmp_gfa_map_array = replicate n (Fin 0),
                             tmp_qa_map_array = Qa2 (replicate n (replicate npeaks 0)),
                             all_time_max_odf = MInf,
                             all_time_global_max = MInf\<rparr>)))))
         else Inl (IndexError ''boolean index did not match indexed array''))"

record maps_out =
  nufo_map_array :: "real list"
  afd_max_array :: "real list"
  afd_sum_array :: "real list"
  rgb_map_array :: "fnum list list"
  gfa_map_array :: "fnum list"
  qa_map_array :: "fnum list list"

text \<open>
  Lines 514 to 531: the arrays are written into zero-filled volumes at the mask, then the
  whole RGB volume is divided by \<^verbatim>\<open>all_time_max_odf\<close> and multiplied by 255, and
  the whole QA volume is divided by \<^verbatim>\<open>all_time_global_max\<close>.
\<close>

definition maps_from_sh_finish :: "nat \<Rightarrow> bool list \<Rightarrow> maps_tmp \<Rightarrow> maps_out" where
  "maps_from_sh_finish npeaks msk t =
     \<lparr>nufo_map_array = put_mask msk (tmp_nufo_map_array t) 0,
      afd_max_array = put_mask msk (tmp_afd_max_array t) 0,
      afd_sum_array = put_mask msk (tmp_afd_sum_array t) 0,
      rgb_map_array =
        map (map (\<lambda>x. fmul (fdiv x (all_time_max_odf t)) (Fin 255)))
          (put_mask msk (tmp_rgb_map_array t) (replicate 3 (Fin 0))),
      gfa_map_array = put_mask msk (tmp_gfa_map_array t) (Fin 0),
      qa_map_array =
        map (map (\<lambda>q. fdiv (Fin q) (all_time_global_max t)))
          (put_mask msk (qa_rows (count_nonzero msk) (tmp_qa_map_array t))
             (replicate npeaks 0))\<rparr>"

definition maps_from_sh ::
  "(vec \<Rightarrow> fnum) \<Rightarrow> int \<Rightarrow> (vec \<Rightarrow> fnum) \<Rightarrow> vec list \<Rightarrow> vec list \<Rightarrow> nat \<Rightarrow> vec list \<Rightarrow> int list list \<Rightarrow> vertex list
     \<Rightarrow> bool list option \<Rightarrow> real \<Rightarrow> int option \<Rightarrow> error + maps_out" where
  "maps_from_sh np_sum cpu_count gfa B shm_coeff npeaks peak_values peak_indices vertices
       mask_opt gfa_thr nbr_processes =
     (case maps_from_sh_tmp np_sum cpu_count gfa B shm_coeff npeaks peak_values peak_indices vertices
             mask_opt gfa_thr nbr_processes of
        Inl e \<Rightarrow> Inl e
      | Inr (msk, t) \<Rightarrow> Inr (maps_from_sh_finish npeaks msk t))"

text \<open>
  dipy's \<^verbatim>\<open>gfa\<close>, after its documentation: the square root of
  n * sum((x - mean)^2) / ((n - 1) * sum(x^2)), computed with numpy's division. The
  denominator is zero only where the numerator is (an ODF of zeros, or of one sample), and
  the division of zero by zero is NaN: the GFA of an all-zero ODF is NaN. It instantiates
  the parameter \<open>gfa\<close> in the concrete examples.
\<close>

definition gfa_dipy :: "vec \<Rightarrow> fnum" where
  "gfa_dipy samples =
     (let n = real (length samples);
          mean = sum_list samples / n;
          numer = n * sum_list (map (\<lambda>x. (x - mean) * (x - mean)) samples);
          denom = (n - 1) * sum_list (map (\<lambda>x. x * x) samples)
      in if denom = 0 then NaN else Fin (sqrt (numer / denom)))"

section \<open>Peak extraction: \<^verbatim>\<open>peaks_from_sh\<close>\<close>

text \<open>
  dipy's \<^verbatim>\<open>peak_directions\<close>, with the sphere, the relative threshold, the
  separation angle and the symmetry flag fixed, is the parameter \<open>peak_directions\<close>: it
  maps the ODF to the directions, the values and the sphere indices of the peaks, three
  arrays of one length. A direction that a division has touched is a triple of \<open>fnum\<close>.
\<close>

type_synonym fvec3 = "fnum \<times> fnum \<times> fnum"

type_synonym peaks_arrays = "fvec3 list list \<times> fnum list list \<times> int list list"

definition fin3 :: "vertex \<Rightarrow> fvec3" where
  "fin3 v = (case v of (x, y, z) \<Rightarrow> (Fin x, Fin y, Fin z))"

definition scale3 :: "fvec3 \<Rightarrow> fnum \<Rightarrow> fvec3" where
  "scale3 d v = (case d of (x, y, z) \<Rightarrow> (fmul x v, fmul y v, fmul z v))"

text \<open>The body of the loop of \<^verbatim>\<open>_peaks_from_sh_loop\<close> (lines 211 to 229).\<close>

definition peaks_from_sh_body ::
  "(vec \<Rightarrow> vertex list \<times> vec \<times> int list) \<Rightarrow> vec list \<Rightarrow> real \<Rightarrow> nat \<Rightarrow> bool \<Rightarrow> vec list
     \<Rightarrow> nat \<Rightarrow> peaks_arrays \<Rightarrow> peaks_arrays" where
  "peaks_from_sh_body peak_directions B absolute_threshold npeaks normalize_peaks shm_coeff
       idx st =
     (case st of (peak_dirs, peak_values, peak_indices) \<Rightarrow>
        if any_nz (shm_coeff ! idx) then
          let odf = map (\<lambda>x. if x < absolute_threshold then 0 else x)
                      (vecmat (shm_coeff ! idx) B)
          in (case peak_directions odf of (dirs, peaks, ind) \<Rightarrow>
               (case peaks of
                  [] \<Rightarrow> st
                | p0 # _ \<Rightarrow>
                    let n = min npeaks (length peaks);
                        drow = map fin3 (take n dirs) @ drop n (peak_dirs ! idx);
                        irow = take n ind @ drop n (peak_indices ! idx);
                        vrow = map Fin (take n peaks) @ drop n (peak_values ! idx)
                    in if normalize_peaks then
                         let vrow' = map (\<lambda>v. fdiv v (Fin p0)) (take n vrow) @ drop n vrow
                         in (peak_dirs[idx := map2 scale3 drow vrow'],
                             peak_values[idx := vrow'],
                             peak_indices[idx := irow])
                       else (peak_dirs[idx := drow],
                             peak_values[idx := vrow],
                             peak_indices[idx := irow])))
        else st)"

text \<open>
  The three rows the body of the loop writes for one voxel, from the rows it finds: the
  body of the loop without the indexing, used in the proofs.
\<close>

definition peaks_from_sh_rows ::
  "(vec \<Rightarrow> vertex list \<times> vec \<times> int list) \<Rightarrow> vec list \<Rightarrow> real \<Rightarrow> nat \<Rightarrow> bool \<Rightarrow> vec
     \<Rightarrow> fvec3 list \<times> fnum list \<times> int list \<Rightarrow> fvec3 list \<times> fnum list \<times> int list" where
  "peaks_from_sh_rows peak_directions B absolute_threshold npeaks normalize_peaks v rows =
     (case rows of (drow0, vrow0, irow0) \<Rightarrow>
        if any_nz v then
          let odf = map (\<lambda>x. if x < absolute_threshold then 0 else x) (vecmat v B)
          in (case peak_directions odf of (dirs, peaks, ind) \<Rightarrow>
               (case peaks of
                  [] \<Rightarrow> rows
                | p0 # _ \<Rightarrow>
                    let n = min npeaks (length peaks);
                        drow = map fin3 (take n dirs) @ drop n drow0;
                        irow = take n ind @ drop n irow0;
                        vrow = map Fin (take n peaks) @ drop n vrow0
                    in if normalize_peaks then
                         let vrow' = map (\<lambda>v. fdiv v (Fin p0)) (take n vrow) @ drop n vrow
                         in (map2 scale3 drow vrow', vrow', irow)
                       else (drow, vrow, irow)))
        else rows)"

definition peaks_from_sh_loop ::
  "(vec \<Rightarrow> vertex list \<times> vec \<times> int list) \<Rightarrow> vec list \<Rightarrow> real \<Rightarrow> nat \<Rightarrow> bool \<Rightarrow> vec list
     \<Rightarrow> peaks_arrays" where
  "peaks_from_sh_loop peak_directions B absolute_threshold npeaks normalize_peaks shm_coeff =
     (let data_shape = length shm_coeff
      in fold (peaks_from_sh_body peak_directions B absolute_threshold npeaks normalize_peaks
                 shm_coeff)
           [0..<length shm_coeff]
           (replicate data_shape (replicate npeaks (Fin 0, Fin 0, Fin 0)),
            replicate data_shape (replicate npeaks (Fin 0)),
            replicate data_shape (replicate npeaks (-1))))"

text \<open>The body of the loop over the workers' results, lines 344 to 346.\<close>

definition peaks_from_sh_merge :: "nat list \<Rightarrow> nat \<times> peaks_arrays \<Rightarrow> peaks_arrays \<Rightarrow> peaks_arrays" where
  "peaks_from_sh_merge chunk_len ir t =
     (case ir of (i, peak_dirs, peak_values, peak_indices) \<Rightarrow>
      case t of (tmp_peak_dirs_array, tmp_peak_values_array, tmp_peak_indices_array) \<Rightarrow>
        let a = chunk_len ! i; b = chunk_len ! (i + 1)
        in (set_slice tmp_peak_dirs_array a b peak_dirs,
            set_slice tmp_peak_values_array a b peak_values,
            set_slice tmp_peak_indices_array a b peak_indices))"

text \<open>
  \<^verbatim>\<open>peaks_from_sh\<close>. The three returned volumes are created with
  \<^verbatim>\<open>np.zeros\<close> (lines 349 to 351), the index volume too.
\<close>

definition peaks_from_sh ::
  "(vec \<Rightarrow> fnum) \<Rightarrow> int \<Rightarrow> (vec \<Rightarrow> vertex list \<times> vec \<times> int list) \<Rightarrow> vec list \<Rightarrow> vec list \<Rightarrow> bool list option
     \<Rightarrow> real \<Rightarrow> bool \<Rightarrow> nat \<Rightarrow> int option \<Rightarrow> error + peaks_arrays" where
  "peaks_from_sh np_sum cpu_count peak_directions B shm_coeff mask_opt absolute_threshold
       normalize_peaks npeaks nbr_processes =
     (let msk = (case mask_opt of None \<Rightarrow> default_mask np_sum shm_coeff | Some m \<Rightarrow> m);
          nbr = (case nbr_processes of
                   None \<Rightarrow> cpu_count
                 | Some n \<Rightarrow> if n \<le> 0 then cpu_count else n)
      in if length msk = length shm_coeff then
           let shm = masked shm_coeff msk;
               loop = peaks_from_sh_loop peak_directions B absolute_threshold npeaks
                        normalize_peaks;
               n = count_nonzero msk
           in (case (if nbr = 1 then Inr (loop shm)
                     else (case array_split shm nbr of
                             Inl e \<Rightarrow> Inl e
                           | Inr chunks \<Rightarrow>
                               let results = map loop chunks;
                                   chunk_len = cumsum (0 # map length chunks)
                               in Inr (fold (peaks_from_sh_merge chunk_len) (enumerate 0 results)
                                         (replicate n (replicate npeaks (Fin 0, Fin 0, Fin 0)),
                                          replicate n (replicate npeaks (Fin 0)),
                                          replicate n (replicate npeaks 0))))) of
                 Inl e \<Rightarrow> Inl e
               | Inr (tmp_peak_dirs_array, tmp_peak_values_array, tmp_peak_indices_array) \<Rightarrow>
                   Inr (put_mask msk tmp_peak_dirs_array (replicate npeaks (Fin 0, Fin 0, Fin 0)),
                        put_mask msk tmp_peak_values_array (replicate npeaks (Fin 0)),
                        put_mask msk tmp_peak_indices_array (replicate npeaks 0)))
         else Inl (IndexError ''boolean index did not match indexed array''))"

section \<open>Conversions: \<^verbatim>\<open>convert_sh_basis\<close> and \<^verbatim>\<open>convert_sh_to_sf\<close>\<close>

text \<open>\<^verbatim>\<open>_convert_sh_basis_loop\<close>: the array is updated in place, row by row.\<close>

definition convert_sh_basis_loop :: "vec list \<Rightarrow> vec list \<Rightarrow> vec list \<Rightarrow> vec list" where
  "convert_sh_basis_loop sh B_in invB_out =
     fold (\<lambda>idx sh. if any_nz (sh ! idx)
                     then sh[idx := vecmat (vecmat (sh ! idx) B_in) invB_out]
                     else sh)
       [0..<length sh] sh"

text \<open>
  \<^verbatim>\<open>convert_sh_basis\<close>. The two matrices (dipy's \<^verbatim>\<open>sh_to_sf_matrix\<close> for the input
  and the output basis) are parameters. With the same basis and legacy flag on both sides
  the input is returned as it is, before any mask is looked at.
\<close>

definition convert_sh_basis ::
  "(vec \<Rightarrow> fnum) \<Rightarrow> int \<Rightarrow> vec list \<Rightarrow> vec list \<Rightarrow> vec list \<Rightarrow> bool list option \<Rightarrow> string \<Rightarrow> string \<Rightarrow> bool \<Rightarrow> bool
     \<Rightarrow> int option \<Rightarrow> error + vec list" where
  "convert_sh_basis np_sum cpu_count B_in invB_out shm_coeff mask_opt input_basis output_basis
       is_input_legacy is_output_legacy nbr_processes =
     (if input_basis = output_basis \<and> is_input_legacy = is_output_legacy then Inr shm_coeff
      else
        let msk = (case mask_opt of None \<Rightarrow> default_mask np_sum shm_coeff | Some m \<Rightarrow> m);
            nbr = (case nbr_processes of
                     None \<Rightarrow> cpu_count
                   | Some n \<Rightarrow> if n < 0 then cpu_count else n)
        in if length msk = length shm_coeff then
             let shm = masked shm_coeff msk;
                 n = count_nonzero msk;
                 ncoef = (case shm_coeff of [] \<Rightarrow> 0 | v # _ \<Rightarrow> length v)
             in (case (if nbr = 1 then Inr (convert_sh_basis_loop shm B_in invB_out)
                       else (case array_split shm nbr of
                               Inl e \<Rightarrow> Inl e
                             | Inr shm_coeff_chunks \<Rightarrow>
                                 let results =
                                       map (\<lambda>c. convert_sh_basis_loop c B_in invB_out)
                                         shm_coeff_chunks;
                                     chunk_len = cumsum (0 # map length shm_coeff_chunks)
                                 in Inr (fold (\<lambda>ir tmp. set_slice tmp (chunk_len ! fst ir)
                                                           (chunk_len ! (fst ir + 1)) (snd ir))
                                           (enumerate 0 results)
                                           (replicate n (replicate ncoef 0))))) of
                   Inl e \<Rightarrow> Inl e
                 | Inr tmp_shm_coeff_array \<Rightarrow>
                     Inr (put_mask msk tmp_shm_coeff_array (replicate ncoef 0)))
           else Inl (IndexError ''boolean index did not match indexed array''))"

text \<open>
  The precision of an array. Storing a number into an array of a given precision rounds
  it to that precision: the rounding is the parameter \<open>cast\<close> of the model.
\<close>

datatype dtype = Float32 | Float64

text \<open>
  \<^verbatim>\<open>_convert_sh_to_sf_loop\<close>: the result array is created with
  \<^verbatim>\<open>dtype=np.float32\<close> (line 669), so each row is rounded to that precision when it is
  stored.
\<close>

definition convert_sh_to_sf_loop ::
  "(dtype \<Rightarrow> real \<Rightarrow> real) \<Rightarrow> vec list \<Rightarrow> nat \<Rightarrow> vec list \<Rightarrow> vec list" where
  "convert_sh_to_sf_loop cast sh new_output_dim B_in =
     fold (\<lambda>idx sf. if any_nz (sh ! idx)
                     then sf[idx := map (cast Float32) (vecmat (sh ! idx) B_in)]
                     else sf)
       [0..<length sh] (replicate (length sh) (replicate new_output_dim 0))"

text \<open>
  \<^verbatim>\<open>convert_sh_to_sf\<close>. \<open>B\<close> is the matrix dipy returns, \<open>output_dim\<close> the number
  of vertices of the sphere. The result is the array with its dtype. \<open>nbr_processes\<close>
  is \<open>None\<close> when the caller leaves the argument out, and the default of the signature
  applies; the function has no other treatment of the worker count. Assigning the
  float32 rows into an array of the requested dtype rounds them to it.
\<close>

definition convert_sh_to_sf ::
  "(vec \<Rightarrow> fnum) \<Rightarrow> int \<Rightarrow> (dtype \<Rightarrow> real \<Rightarrow> real) \<Rightarrow> vec list \<Rightarrow> nat \<Rightarrow> vec list \<Rightarrow> bool list option \<Rightarrow> dtype
     \<Rightarrow> int option \<Rightarrow> error + (dtype \<times> vec list)" where
  "convert_sh_to_sf np_sum cpu_count cast B output_dim shm_coeff mask_opt dt nbr_processes =
     (let B_in = map (map (cast dt)) B;
          msk = (case mask_opt of None \<Rightarrow> default_mask np_sum shm_coeff | Some m \<Rightarrow> m);
          nbr = (case nbr_processes of None \<Rightarrow> cpu_count | Some n \<Rightarrow> n)
      in if length msk = length shm_coeff then
           let shm = masked shm_coeff msk;
               n = count_nonzero msk
           in (case (if nbr = 1
                     then Inr (map (map (cast dt)) (convert_sh_to_sf_loop cast shm output_dim B_in))
                     else (case array_split shm nbr of
                             Inl e \<Rightarrow> Inl e
                           | Inr shm_coeff_chunks \<Rightarrow>
                               let results =
                                     map (\<lambda>c. convert_sh_to_sf_loop cast c output_dim B_in)
                                       shm_coeff_chunks;
                                   chunk_len = cumsum (0 # map length shm_coeff_chunks)
                               in Inr (fold (\<lambda>ir tmp. set_slice tmp (chunk_len ! fst ir)
                                                         (chunk_len ! (fst ir + 1))
                                                         (map (map (cast dt)) (snd ir)))
                                         (enumerate 0 results)
                                         (replicate n (replicate output_dim 0))))) of
                 Inl e \<Rightarrow> Inl e
               | Inr tmp_sf_array \<Rightarrow>
                   Inr (dt, put_mask msk tmp_sf_array (replicate output_dim 0)))
         else Inl (IndexError ''boolean index did not match indexed array''))"

text \<open>
  A rounding for the concrete examples: to \<open>p\<close> binary digits after the point, which
  is what a binary format with \<open>p\<close> fraction bits does to a number between 1 and 2
  (ties apart). Float32 has 23 fraction bits, float64 has 52.
\<close>

definition round_bits :: "nat \<Rightarrow> real \<Rightarrow> real" where
  "round_bits p x = of_int (round (x * 2 ^ p)) / 2 ^ p"

definition cast_bits :: "dtype \<Rightarrow> real \<Rightarrow> real" where
  "cast_bits dt x = (case dt of Float32 \<Rightarrow> round_bits 23 x | Float64 \<Rightarrow> round_bits 52 x)"

section \<open>RISH features: \<^verbatim>\<open>compute_rish\<close>\<close>












section \<open>Concrete inputs\<close>

text \<open>
  A sphere of two vertices and two transform matrices for one coefficient: with
  \<open>ex_B\<close> the ODF of the voxel \<open>[c]\<close> is \<open>[c, 0]\<close>, with \<open>ex_B_iso\<close> it is
  \<open>[c, c]\<close>. For two coefficients, with \<open>ex_B2\<close> the ODF of a voxel is the voxel.
\<close>

definition ex_vertices :: "vertex list" where
  "ex_vertices = [(1, 0, 0), (0, 1, 0)]"

definition ex_B :: "vec list" where
  "ex_B = [[1], [0]]"

definition ex_B_iso :: "vec list" where
  "ex_B_iso = [[1], [1]]"

definition ex_B2 :: "vec list" where
  "ex_B2 = [[1, 0], [0, 1]]"


section \<open>Properties\<close>

lemma sort_two_nth0:
  fixes xs :: "real list"
  assumes "length xs = 2"
  shows "sort xs ! 0 = Min (set xs)"
proof -
  from assms obtain a b where xs: "xs = [a, b]"
    by (cases xs; cases "tl xs") auto
  show ?thesis
    by (cases "a \<le> b") (simp_all add: xs insort_is_Cons min_def)
qed

text \<open>
  Claim C5. \<^verbatim>\<open>compute_sh_coefficients\<close> raises the single-shell error, and returns
  nothing of the fit, exactly when the shells do not number two or the lowest shell value
  exceeds the b0 threshold. With the shells taken as the distinct b-values, the table
  0, 0, 0, 1000, 1000, 1000 passes at threshold 50 and the table 0, 1000, 2000 fails.
\<close>

theorem compute_sh_coefficients_single_shell:
  "(compute_sh_coefficients identify_shells fit bvals b0_threshold
        = Inl (ValueError ''Can only work on single shell signals.'')
      \<longleftrightarrow> (length (identify_shells bvals) \<noteq> 2
           \<or> Min (set (identify_shells bvals)) > b0_threshold))
   \<and> (compute_sh_coefficients identify_shells fit bvals b0_threshold = Inr fit
      \<longleftrightarrow> (length (identify_shells bvals) = 2
           \<and> Min (set (identify_shells bvals)) \<le> b0_threshold))
   \<and> compute_sh_coefficients identify_shells_spec fit [0, 0, 0, 1000, 1000, 1000] 50 = Inr fit
   \<and> compute_sh_coefficients identify_shells_spec fit [0, 1000, 2000] 50
        = Inl (ValueError ''Can only work on single shell signals.'')"
proof -
  have a: "length (identify_shells bvals) = 2 \<Longrightarrow>
      sort (identify_shells bvals) ! 0 = Min (set (identify_shells bvals))"
    by (rule sort_two_nth0)
  have g1: "compute_sh_coefficients identify_shells fit bvals b0_threshold
        = Inl (ValueError ''Can only work on single shell signals.'')
      \<longleftrightarrow> (length (identify_shells bvals) \<noteq> 2
           \<or> Min (set (identify_shells bvals)) > b0_threshold)"
    using a by (auto simp: compute_sh_coefficients_def Let_def)
  have g2: "compute_sh_coefficients identify_shells fit bvals b0_threshold = Inr fit
      \<longleftrightarrow> (length (identify_shells bvals) = 2
           \<and> Min (set (identify_shells bvals)) \<le> b0_threshold)"
    using a by (auto simp: compute_sh_coefficients_def Let_def)
  have g3: "compute_sh_coefficients identify_shells_spec fit [0, 0, 0, 1000, 1000, 1000] 50
      = Inr fit"
    by (simp add: compute_sh_coefficients_def identify_shells_spec_def)
  have g4: "compute_sh_coefficients identify_shells_spec fit [0, 1000, 2000] 50
      = Inl (ValueError ''Can only work on single shell signals.'')"
    by (simp add: compute_sh_coefficients_def identify_shells_spec_def)
  from g1 g2 g3 g4 show ?thesis by blast
qed

theorem compute_sh_coefficients_single_shell_witness:
  "length (identify_shells_spec [0, 1000, 2000]) \<noteq> 2
   \<and> compute_sh_coefficients identify_shells_spec () [0, 1000, 2000] 50
        = Inl (ValueError ''Can only work on single shell signals.'')
   \<and> length (identify_shells_spec [0, 0, 1000]) = 2
   \<and> Min (set (identify_shells_spec [0, 0, 1000])) \<le> 50
   \<and> compute_sh_coefficients identify_shells_spec () [0, 0, 1000] 50 = Inr ()"
  using compute_sh_coefficients_single_shell
          [of identify_shells_spec "()" "[0, 1000, 2000]" 50]
        compute_sh_coefficients_single_shell
          [of identify_shells_spec "()" "[0, 0, 1000]" 50]
  by (simp add: identify_shells_spec_def)

subsection \<open>The loop of the derived maps and the mask\<close>












subsection \<open>Evaluation on concrete inputs\<close>

lemmas maps_eval =
  maps_from_sh_def maps_from_sh_tmp_def maps_from_sh_finish_def maps_from_sh_seq_def
  default_mask_def exact_sum_def masked_def count_nonzero_def maps_from_sh_loop_def maps_from_sh_body_def
  ex_vertices_def ex_B_def ex_B_iso_def ex_B2_def upt_rec any_nz_def vecmat_def dot_def Let_def
  gfa_dipy_def rgb_row_def count_valid_def amax_def amin_def pymax_def array_split_def
  maps_from_sh_merge_def cumsum_def set_slice_def enumerate_eq_zip eval_nat_numeral

text \<open>
  Claim C1. The result of \<^verbatim>\<open>maps_from_sh\<close> depends on the worker count. On the volume
  of the two voxels \<open>[2]\<close> and \<open>[1]\<close>, with peak values \<open>[1]\<close> and \<open>[1/2]\<close>, both
  peaks valid, the default mask and threshold 0, one worker returns the RGB rows
  255 and 127.5 and the QA rows 1/2 and 1/2; two workers, and the default worker count on
  two hardware threads, return the RGB rows 510 and 255 and the QA rows 1 and 1/2.
\<close>

theorem maps_from_sh_worker_count:
  "maps_from_sh exact_sum 2 gfa_dipy ex_B [[2], [1]] 1 [[1], [1 / 2]] [[0], [0]] ex_vertices None 0
       (Some 1)
     = Inr \<lparr>nufo_map_array = [1, 1], afd_max_array = [1, 1 / 2], afd_sum_array = [2, 1],
            rgb_map_array = [[Fin 255, Fin 0, Fin 0], [Fin (255 / 2), Fin 0, Fin 0]],
            gfa_map_array = [Fin 1, Fin 1],
            qa_map_array = [[Fin (1 / 2)], [Fin (1 / 2)]]\<rparr>
   \<and> maps_from_sh exact_sum 2 gfa_dipy ex_B [[2], [1]] 1 [[1], [1 / 2]] [[0], [0]] ex_vertices None 0
       (Some 2)
     = Inr \<lparr>nufo_map_array = [1, 1], afd_max_array = [1, 1 / 2], afd_sum_array = [2, 1],
            rgb_map_array = [[Fin 510, Fin 0, Fin 0], [Fin 255, Fin 0, Fin 0]],
            gfa_map_array = [Fin 1, Fin 1],
            qa_map_array = [[Fin 1], [Fin (1 / 2)]]\<rparr>
   \<and> maps_from_sh exact_sum 2 gfa_dipy ex_B [[2], [1]] 1 [[1], [1 / 2]] [[0], [0]] ex_vertices None 0
       None
     = Inr \<lparr>nufo_map_array = [1, 1], afd_max_array = [1, 1 / 2], afd_sum_array = [2, 1],
            rgb_map_array = [[Fin 510, Fin 0, Fin 0], [Fin 255, Fin 0, Fin 0]],
            gfa_map_array = [Fin 1, Fin 1],
            qa_map_array = [[Fin 1], [Fin (1 / 2)]]\<rparr>"
  by (simp add: maps_eval)

text \<open>
  Claim C2. With two workers on the same input the chunks are the single voxels, their
  max-ODF trackers are 2 and 1, and the reduction leaves \<^verbatim>\<open>all_time_max_odf\<close> at 1,
  not at their maximum 2: line 504 takes the maximum of the global-max tracker and the
  last chunk's max-ODF tracker. The global-max tracker ends at the maximum, 1, of the
  chunks' trackers 1 and 1/2.
\<close>

theorem maps_from_sh_reduction_max_odf:
  "array_split [[2], [1::real]] 2 = Inr [[[2]], [[1]]]
   \<and> map_sum id max_odf (maps_from_sh_loop ex_vertices gfa_dipy ex_B 0 1 [[2]] [[1]] [[0]])
       = Inr 2
   \<and> map_sum id max_odf (maps_from_sh_loop ex_vertices gfa_dipy ex_B 0 1 [[1]] [[1 / 2]] [[0]])
       = Inr 1
   \<and> map_sum id global_max (maps_from_sh_loop ex_vertices gfa_dipy ex_B 0 1 [[2]] [[1]] [[0]])
       = Inr (Fin 1)
   \<and> map_sum id global_max
         (maps_from_sh_loop ex_vertices gfa_dipy ex_B 0 1 [[1]] [[1 / 2]] [[0]])
       = Inr (Fin (1 / 2))
   \<and> map_sum id (all_time_max_odf \<circ> snd)
         (maps_from_sh_tmp exact_sum 2 gfa_dipy ex_B [[2], [1]] 1 [[1], [1 / 2]] [[0], [0]] ex_vertices
            None 0 (Some 2))
       = Inr (Fin 1)
   \<and> map_sum id (all_time_global_max \<circ> snd)
         (maps_from_sh_tmp exact_sum 2 gfa_dipy ex_B [[2], [1]] 1 [[1], [1 / 2]] [[0], [0]] ex_vertices
            None 0 (Some 2))
       = Inr (Fin 1)"
  by (simp add: maps_eval)

text \<open>
  Claim C3. The QA rows are not per voxel. With one worker, on the voxels \<open>[2]\<close> (peak
  value 1, valid) and \<open>[1]\<close> (no valid peak), both at or above the GFA threshold 0, the
  QA row of the second voxel is 1, the first voxel's row, and not zero; the global-max
  tracker is 1, so the final division changes nothing. When both voxels have a valid
  peak, with values 1 and 1/2, the first voxel's QA row is the second's, 1/2.
\<close>

theorem maps_from_sh_qa_rows:
  "map_sum id qa_map_array
       (maps_from_sh exact_sum 2 gfa_dipy ex_B [[2], [1]] 1 [[1], [0]] [[0], [-1]] ex_vertices None 0
          (Some 1))
     = Inr [[Fin 1], [Fin 1]]
   \<and> map_sum id (all_time_global_max \<circ> snd)
       (maps_from_sh_tmp exact_sum 2 gfa_dipy ex_B [[2], [1]] 1 [[1], [0]] [[0], [-1]] ex_vertices None 0
          (Some 1))
     = Inr (Fin 1)
   \<and> map_sum id (tmp_qa_map_array \<circ> snd)
       (maps_from_sh_tmp exact_sum 2 gfa_dipy ex_B [[2], [1]] 1 [[1], [0]] [[0], [-1]] ex_vertices None 0
          (Some 1))
     = Inr (Qa1 [1])
   \<and> map_sum id (tmp_qa_map_array \<circ> snd)
       (maps_from_sh_tmp exact_sum 2 gfa_dipy ex_B [[2], [1]] 1 [[1], [1 / 2]] [[0], [0]] ex_vertices
          None 0 (Some 1))
     = Inr (Qa1 [1 / 2])"
  by (simp add: maps_eval)

lemma round_bits_example:
  "round_bits 23 (1 + 1 / 2 ^ 30) = 1"
  "round_bits 52 (1 + 1 / 2 ^ 30) = 1 + 1 / 2 ^ 30"
  "round_bits 52 1 = 1"
  by (simp_all add: round_bits_def round_def)

text \<open>
  Claim C6. \<^verbatim>\<open>convert_sh_to_sf\<close> with dtype float64 returns an array of dtype float64
  whose values have been rounded to float32. The coefficient 1 against the matrix entry
  1 + 2^-30, which float64 holds exactly, gives 1 + 2^-30 in float64 precision; the
  function returns 1.
\<close>

theorem convert_sh_to_sf_float64:
  "convert_sh_to_sf exact_sum 4 cast_bits [[1 + 1 / 2 ^ 30]] 1 [[1]] None Float64 (Some 1)
     = Inr (Float64, [[1]])
   \<and> cast_bits Float64 (dot [1] [cast_bits Float64 (1 + 1 / 2 ^ 30)]) = 1 + 1 / 2 ^ 30"
  by (simp add: convert_sh_to_sf_def convert_sh_to_sf_loop_def cast_bits_def default_mask_def
        exact_sum_def masked_def count_nonzero_def any_nz_def vecmat_def dot_def
        round_bits_example
      del: power_numeral One_nat_def)

text \<open>
  Claim C7. A volume of one voxel with 15 zero coefficients, no mask given, five peaks
  and one worker: the loop over the masked voxels would fill the index row with -1, but
  the voxel is outside the default mask and the returned index row is five zeros, from
  the zero-filled array of line 351. This holds for every peak finder, matrix and
  threshold. The sum of zeros is exact.
\<close>

theorem peaks_from_sh_zero_voxel:
  "peaks_from_sh exact_sum cpu_count peak_directions B [replicate 15 0] None absolute_threshold
       normalize_peaks 5 (Some 1)
     = Inr ([replicate 5 (Fin 0, Fin 0, Fin 0)], [replicate 5 (Fin 0)], [replicate 5 0])
   \<and> peaks_from_sh_loop peak_directions B absolute_threshold 5 normalize_peaks
       [replicate 15 0]
     = ([replicate 5 (Fin 0, Fin 0, Fin 0)], [replicate 5 (Fin 0)], [replicate 5 (- 1)])"
  by (simp add: peaks_from_sh_def peaks_from_sh_loop_def peaks_from_sh_body_def
        default_mask_def exact_sum_def masked_def count_nonzero_def any_nz_def list_ex_iff
        sum_list_replicate)

text \<open>
  Claim C9. A worker count of 0 is the default count only in \<^verbatim>\<open>peaks_from_sh\<close>. For
  every input, \<^verbatim>\<open>maps_from_sh\<close>, \<^verbatim>\<open>convert_sh_basis\<close> (here with its default
  bases and legacy flags) and \<^verbatim>\<open>convert_sh_to_sf\<close> raise with a worker count of 0.
\<close>

theorem nbr_processes_zero:
  "isl (maps_from_sh np_sum cpu_count gfa B shm_coeff npeaks peak_values peak_indices vertices
          mask_opt gfa_thr (Some 0))
   \<and> isl (convert_sh_basis np_sum cpu_count B_in invB_out shm_coeff mask_opt
            ''descoteaux07'' ''tournier07'' True False (Some 0))
   \<and> isl (convert_sh_to_sf np_sum cpu_count cast B output_dim shm_coeff mask_opt dt (Some 0))
   \<and> peaks_from_sh np_sum cpu_count peak_directions B shm_coeff mask_opt absolute_threshold
         normalize_peaks np (Some 0)
       = peaks_from_sh np_sum cpu_count peak_directions B shm_coeff mask_opt absolute_threshold
           normalize_peaks np None"
  by (simp add: maps_from_sh_def maps_from_sh_tmp_def convert_sh_basis_def
        convert_sh_to_sf_def peaks_from_sh_def array_split_def Let_def)

subsection \<open>RISH features\<close>


















subsection \<open>The trackers of the derived maps\<close>









lemma array_split_sizes:
  assumes "array_split xs n = Inr cs"
  shows "cs = split_sizes
           (replicate (length xs mod nat n) (length xs div nat n + 1)
            @ replicate (nat n - length xs mod nat n) (length xs div nat n)) xs"
    and "sum_list (replicate (length xs mod nat n) (length xs div nat n + 1)
            @ replicate (nat n - length xs mod nat n) (length xs div nat n)) = length xs"
proof -
  from assms have n: "0 < n" by (auto simp: array_split_def split: if_splits)
  let ?N = "length xs"
  let ?n = "nat n"
  let ?ks = "replicate (?N mod ?n) (?N div ?n + 1) @ replicate (?n - ?N mod ?n) (?N div ?n)"
  have "?N mod ?n \<le> ?n" using n by simp
  then have "sum_list ?ks = ?N mod ?n * (?N div ?n + 1) + (?n - ?N mod ?n) * (?N div ?n)"
    by (simp add: sum_list_replicate)
  also have "\<dots> = ?N mod ?n + ?n * (?N div ?n)"
    using \<open>?N mod ?n \<le> ?n\<close> by (simp add: algebra_simps flip: add_mult_distrib2)
  also have "\<dots> = ?N" by simp
  finally show "sum_list ?ks = ?N" .
  show "cs = split_sizes ?ks xs"
    using assms n by (auto simp: array_split_def Let_def)
qed

lemma length_masked:
  assumes "length msk = length xs"
  shows "length (masked xs msk) = count_nonzero msk"
  using assms
proof (induction xs msk rule: list_induct2')
  case (4 x xs y ys)
  then show ?case by (cases y) (auto simp: masked_def count_nonzero_def)
qed (auto simp: masked_def count_nonzero_def)























subsection \<open>The default mask\<close>




subsection \<open>Operations whose result does not depend on the worker count\<close>

text \<open>
  \<^verbatim>\<open>peaks_from_sh\<close>, \<^verbatim>\<open>convert_sh_basis\<close> and \<^verbatim>\<open>convert_sh_to_sf\<close> return, for
  every positive worker count, what they return for one worker: their loops treat each
  voxel on its own, and the chunks' results are put back in the order of the chunks.
\<close>

lemma cumsum_from_nth:
  "k \<le> length xs \<Longrightarrow> (acc # cumsum_from acc xs) ! k = acc + sum_list (take k xs)"
proof (induction xs arbitrary: acc k)
  case Nil
  then show ?case by simp
next
  case (Cons x xs)
  show ?case
  proof (cases k)
    case 0
    then show ?thesis by simp
  next
    case (Suc j)
    with Cons.prems Cons.IH[of j "acc + x"] show ?thesis by (simp add: add.assoc)
  qed
qed

lemma fold_set_slice:
  assumes "\<And>j. j \<le> length rs \<Longrightarrow> cl ! (k + j) = length pre + sum_list (map length (take j rs))"
    and "sum_list (map length rs) \<le> length rest"
  shows "fold (\<lambda>ir tmp. set_slice tmp (cl ! fst ir) (cl ! (fst ir + 1)) (snd ir))
           (enumerate k rs) (pre @ rest)
         = pre @ concat rs @ drop (sum_list (map length rs)) rest"
  using assms
proof (induction rs arbitrary: k pre rest)
  case Nil
  then show ?case by simp
next
  case (Cons r rs)
  have a: "cl ! k = length pre" using Cons.prems(1)[of 0] by simp
  have b: "cl ! Suc k = length pre + length r" using Cons.prems(1)[of 1] by simp
  have st: "set_slice (pre @ rest) (cl ! k) (cl ! Suc k) r = (pre @ r) @ drop (length r) rest"
    using Cons.prems(2) by (simp add: set_slice_def a b)
  have ih: "fold (\<lambda>ir tmp. set_slice tmp (cl ! fst ir) (cl ! (fst ir + 1)) (snd ir))
           (enumerate (Suc k) rs) ((pre @ r) @ drop (length r) rest)
         = (pre @ r) @ concat rs @ drop (sum_list (map length rs)) (drop (length r) rest)"
  proof (rule Cons.IH)
    fix j assume "j \<le> length rs"
    then show "cl ! (Suc k + j) = length (pre @ r) + sum_list (map length (take j rs))"
      using Cons.prems(1)[of "Suc j"] by simp
  next
    show "sum_list (map length rs) \<le> length (drop (length r) rest)"
      using Cons.prems(2) by simp
  qed
  show ?case
    using ih st by (simp add: add.commute)
qed

lemma reassemble:
  assumes "length tmp = sum_list (map length chunks)"
    and "\<forall>c\<in>set chunks. length (f c) = length c"
  shows "fold (\<lambda>ir tmp. set_slice tmp (cumsum (0 # map length chunks) ! fst ir)
                          (cumsum (0 # map length chunks) ! (fst ir + 1)) (snd ir))
           (enumerate 0 (map f chunks)) tmp
         = concat (map f chunks)"
proof -
  have l: "map length (map f chunks) = map length chunks"
    using assms(2) by (induction chunks) auto
  have l': "map (length \<circ> f) chunks = map length chunks"
    using l by simp
  have "fold (\<lambda>ir tmp. set_slice tmp (cumsum (0 # map length chunks) ! fst ir)
                          (cumsum (0 # map length chunks) ! (fst ir + 1)) (snd ir))
           (enumerate 0 (map f chunks)) ([] @ tmp)
         = [] @ concat (map f chunks) @ drop (sum_list (map length (map f chunks))) tmp"
  proof (rule fold_set_slice)
    fix j assume j: "j \<le> length (map f chunks)"
    have "map length (take j (map f chunks)) = take j (map length chunks)"
      by (metis l take_map)
    then show "cumsum (0 # map length chunks) ! (0 + j)
        = length [] + sum_list (map length (take j (map f chunks)))"
      using cumsum_from_nth[of j "map length chunks" 0] j by (simp add: cumsum_def)
  next
    show "sum_list (map length (map f chunks)) \<le> length tmp"
      by (simp add: l' assms(1))
  qed
  then show ?thesis by (simp add: assms(1) l')
qed

lemma concat_split_sizes:
  "sum_list ks = length xs \<Longrightarrow> concat (split_sizes ks xs) = xs"
proof (induction ks arbitrary: xs)
  case Nil
  then show ?case by simp
next
  case (Cons k ks)
  then show ?case by simp
qed


lemma fold_index_update:
  assumes "n \<le> length xs"
  shows "fold (\<lambda>i ys. ys[i := h i (ys ! i)]) [0..<n] xs
         = map (\<lambda>i. h i (xs ! i)) [0..<n] @ drop n xs"
  using assms
proof (induction n)
  case 0
  then show ?case by simp
next
  case (Suc n)
  let ?pre = "map (\<lambda>i. h i (xs ! i)) [0..<n]"
  have n: "n < length xs" using Suc.prems by simp
  have ih: "fold (\<lambda>i ys. ys[i := h i (ys ! i)]) [0..<n] xs = ?pre @ drop n xs"
    using Suc by simp
  have d: "drop n xs = xs ! n # drop (Suc n) xs"
    using n by (simp add: Cons_nth_drop_Suc)
  have "(?pre @ drop n xs) ! n = xs ! n"
    by (simp add: nth_append d)
  moreover have "(?pre @ drop n xs)[n := v] = ?pre @ v # drop (Suc n) xs" for v
    by (simp add: list_update_append d)
  ultimately show ?case
    by (simp add: ih)
qed

lemma convert_sh_basis_loop_map:
  "convert_sh_basis_loop sh B_in invB_out
   = map (\<lambda>v. if any_nz v then vecmat (vecmat v B_in) invB_out else v) sh"
proof -
  let ?h = "\<lambda>(i::nat) v. if any_nz v then vecmat (vecmat v B_in) invB_out else v"
  have b: "(\<lambda>idx sh. if any_nz (sh ! idx)
                     then sh[idx := vecmat (vecmat (sh ! idx) B_in) invB_out]
                     else sh)
      = (\<lambda>i ys. ys[i := ?h i (ys ! i)])"
    by (intro ext) simp
  have f: "fold (\<lambda>i ys. ys[i := ?h i (ys ! i)]) [0..<length sh] sh
      = map (\<lambda>i. ?h i (sh ! i)) [0..<length sh] @ drop (length sh) sh"
    by (rule fold_index_update) simp
  have m: "map (\<lambda>i. ?h i (sh ! i)) [0..<length sh] = map (?h 0) sh"
    by (rule nth_equalityI) simp_all
  show ?thesis
    unfolding convert_sh_basis_loop_def b f m by simp
qed

lemma convert_sh_to_sf_loop_map:
  "convert_sh_to_sf_loop cast sh new_output_dim B_in
   = map (\<lambda>v. if any_nz v then map (cast Float32) (vecmat v B_in)
                else replicate new_output_dim 0) sh"
proof -
  let ?h = "\<lambda>i v. if any_nz (sh ! i) then map (cast Float32) (vecmat (sh ! i) B_in) else v"
  let ?z = "replicate (length sh) (replicate new_output_dim (0::real))"
  have b: "(\<lambda>idx sf. if any_nz (sh ! idx)
                     then sf[idx := map (cast Float32) (vecmat (sh ! idx) B_in)]
                     else sf)
      = (\<lambda>i ys. ys[i := ?h i (ys ! i)])"
    by (intro ext) simp
  have f: "fold (\<lambda>i ys. ys[i := ?h i (ys ! i)]) [0..<length sh] ?z
      = map (\<lambda>i. ?h i (?z ! i)) [0..<length sh] @ drop (length sh) ?z"
    by (rule fold_index_update) simp
  have m: "map (\<lambda>i. ?h i (?z ! i)) [0..<length sh]
      = map (\<lambda>v. if any_nz v then map (cast Float32) (vecmat v B_in)
                else replicate new_output_dim 0) sh"
    by (rule nth_equalityI) simp_all
  show ?thesis
    unfolding convert_sh_to_sf_loop_def b f m by simp
qed


lemma array_split_concat:
  assumes "array_split xs n = Inr chunks"
  shows "concat chunks = xs" and "sum_list (map length chunks) = length xs"
proof -
  show c: "concat chunks = xs"
    using array_split_sizes[OF assms] concat_split_sizes by metis
  show "sum_list (map length chunks) = length xs"
    using c by (metis length_concat)
qed

lemma chunked_map:
  assumes "array_split xs n = Inr chunks"
  shows "fold (\<lambda>ir tmp. set_slice tmp (cumsum (0 # map length chunks) ! fst ir)
                          (cumsum (0 # map length chunks) ! (fst ir + 1)) (snd ir))
           (enumerate 0 (map (map f) chunks)) (replicate (length xs) z)
         = map f xs"
proof -
  have "fold (\<lambda>ir tmp. set_slice tmp (cumsum (0 # map length chunks) ! fst ir)
                          (cumsum (0 # map length chunks) ! (fst ir + 1)) (snd ir))
           (enumerate 0 (map (map f) chunks)) (replicate (length xs) z)
         = concat (map (map f) chunks)"
    by (rule reassemble) (simp_all add: array_split_concat(2)[OF assms])
  also have "\<dots> = map f (concat chunks)" by (simp add: map_concat)
  finally show ?thesis by (simp add: array_split_concat(1)[OF assms])
qed

theorem convert_sh_basis_worker_count:
  assumes "0 < n"
  shows "convert_sh_basis np_sum cpu_count B_in invB_out shm_coeff mask_opt input_basis output_basis
           is_input_legacy is_output_legacy (Some n)
         = convert_sh_basis np_sum cpu_count B_in invB_out shm_coeff mask_opt input_basis output_basis
           is_input_legacy is_output_legacy (Some 1)"
proof (cases "n = 1")
  case True
  then show ?thesis by simp
next
  case False
  define msk where "msk = (case mask_opt of None \<Rightarrow> default_mask np_sum shm_coeff | Some m \<Rightarrow> m)"
  let ?f = "\<lambda>v. if any_nz v then vecmat (vecmat v B_in) invB_out else v"
  have par: "(case array_split (masked shm_coeff msk) n of
          Inl e \<Rightarrow> Inl e
        | Inr shm_coeff_chunks \<Rightarrow>
            Inr (fold (\<lambda>ir tmp. set_slice tmp (cumsum (0 # map length shm_coeff_chunks) ! fst ir)
                        (cumsum (0 # map length shm_coeff_chunks) ! (fst ir + 1)) (snd ir))
                  (enumerate 0 (map (\<lambda>c. convert_sh_basis_loop c B_in invB_out) shm_coeff_chunks))
                  (replicate (count_nonzero msk) z)))
      = Inr (map ?f (masked shm_coeff msk))"
    if "length msk = length shm_coeff" for z :: vec
  proof -
    obtain chunks where c: "array_split (masked shm_coeff msk) n = Inr chunks"
      using assms by (auto simp: array_split_def Let_def)
    have l: "count_nonzero msk = length (masked shm_coeff msk)"
      using length_masked[OF that] by simp
    have m: "map (\<lambda>c. convert_sh_basis_loop c B_in invB_out) chunks = map (map ?f) chunks"
      by (simp add: convert_sh_basis_loop_map)
    show ?thesis
      unfolding c l using chunked_map[OF c, of ?f z] by (simp add: convert_sh_basis_loop_map)
  qed
  show ?thesis
    unfolding convert_sh_basis_def Let_def msk_def[symmetric]
    using assms False par by (simp add: convert_sh_basis_loop_map)
qed


lemma fold_enumerate_map:
  "fold (\<lambda>ir tmp. F (fst ir) (g (snd ir)) tmp) (enumerate k rs) t
   = fold (\<lambda>ir tmp. F (fst ir) (snd ir) tmp) (enumerate k (map g rs)) t"
  by (induction rs arbitrary: k t) auto

theorem convert_sh_to_sf_worker_count:
  assumes "0 < n"
  shows "convert_sh_to_sf np_sum cpu_count cast B output_dim shm_coeff mask_opt dt (Some n)
         = convert_sh_to_sf np_sum cpu_count cast B output_dim shm_coeff mask_opt dt (Some 1)"
proof (cases "n = 1")
  case True
  then show ?thesis by simp
next
  case False
  define msk where "msk = (case mask_opt of None \<Rightarrow> default_mask np_sum shm_coeff | Some m \<Rightarrow> m)"
  define B_in where "B_in = map (map (cast dt)) B"
  let ?f = "\<lambda>v. map (cast dt) (if any_nz v then map (cast Float32) (vecmat v B_in)
                else replicate output_dim 0)"
  have par: "(case array_split (masked shm_coeff msk) n of
          Inl e \<Rightarrow> Inl e
        | Inr shm_coeff_chunks \<Rightarrow>
            Inr (fold (\<lambda>ir tmp. set_slice tmp (cumsum (0 # map length shm_coeff_chunks) ! fst ir)
                        (cumsum (0 # map length shm_coeff_chunks) ! (fst ir + 1))
                        (map (map (cast dt)) (snd ir)))
                  (enumerate 0 (map (\<lambda>c. convert_sh_to_sf_loop cast c output_dim B_in)
                     shm_coeff_chunks))
                  (replicate (count_nonzero msk) z)))
      = Inr (map ?f (masked shm_coeff msk))"
    if "length msk = length shm_coeff" for z :: vec
  proof -
    obtain chunks where c: "array_split (masked shm_coeff msk) n = Inr chunks"
      using assms by (auto simp: array_split_def Let_def)
    have l: "count_nonzero msk = length (masked shm_coeff msk)"
      using length_masked[OF that] by simp
    have m: "map (map (map (cast dt))) (map (\<lambda>c. convert_sh_to_sf_loop cast c output_dim B_in) chunks)
        = map (map ?f) chunks"
      by (simp add: convert_sh_to_sf_loop_map)
    have "fold (\<lambda>ir tmp. set_slice tmp (cumsum (0 # map length chunks) ! fst ir)
                        (cumsum (0 # map length chunks) ! (fst ir + 1))
                        (map (map (cast dt)) (snd ir)))
                  (enumerate 0 (map (\<lambda>c. convert_sh_to_sf_loop cast c output_dim B_in) chunks))
                  (replicate (length (masked shm_coeff msk)) z)
        = fold (\<lambda>ir tmp. set_slice tmp (cumsum (0 # map length chunks) ! fst ir)
                        (cumsum (0 # map length chunks) ! (fst ir + 1)) (snd ir))
                  (enumerate 0 (map (map ?f) chunks))
                  (replicate (length (masked shm_coeff msk)) z)"
      using fold_enumerate_map[of "\<lambda>i r tmp. set_slice tmp (cumsum (0 # map length chunks) ! i)
                        (cumsum (0 # map length chunks) ! (i + 1)) r" "map (map (cast dt))" 0
             "map (\<lambda>c. convert_sh_to_sf_loop cast c output_dim B_in) chunks"]
      unfolding m by simp
    also have "\<dots> = map ?f (masked shm_coeff msk)"
      by (rule chunked_map[OF c])
    finally show ?thesis unfolding c l by simp
  qed
  show ?thesis
    unfolding convert_sh_to_sf_def Let_def msk_def[symmetric] B_in_def[symmetric]
    using assms False par by (simp add: convert_sh_to_sf_loop_map comp_def)
qed


lemma peaks_from_sh_body_rows:
  "peaks_from_sh_body pd B thr np nrm shm idx (a, b, c)
   = (case peaks_from_sh_rows pd B thr np nrm (shm ! idx) (a ! idx, b ! idx, c ! idx) of
        (x, y, z) \<Rightarrow> (a[idx := x], b[idx := y], c[idx := z]))"
  by (simp add: peaks_from_sh_body_def peaks_from_sh_rows_def Let_def
      split: prod.splits list.splits)

lemma fold_index_update3:
  assumes "n \<le> length a" and "length b = length a" and "length c = length a"
  shows "fold (\<lambda>i st. case st of (a, b, c) \<Rightarrow>
                  (case H i (a ! i, b ! i, c ! i) of (x, y, z) \<Rightarrow> (a[i := x], b[i := y], c[i := z])))
           [0..<n] (a, b, c)
         = (map (\<lambda>i. fst (H i (a ! i, b ! i, c ! i))) [0..<n] @ drop n a,
            map (\<lambda>i. fst (snd (H i (a ! i, b ! i, c ! i)))) [0..<n] @ drop n b,
            map (\<lambda>i. snd (snd (H i (a ! i, b ! i, c ! i)))) [0..<n] @ drop n c)"
  using assms
proof (induction n)
  case 0
  then show ?case by simp
next
  case (Suc n)
  let ?pa = "map (\<lambda>i. fst (H i (a ! i, b ! i, c ! i))) [0..<n]"
  let ?pb = "map (\<lambda>i. fst (snd (H i (a ! i, b ! i, c ! i)))) [0..<n]"
  let ?pc = "map (\<lambda>i. snd (snd (H i (a ! i, b ! i, c ! i)))) [0..<n]"
  have n: "n < length a" "n < length b" "n < length c" using Suc.prems by simp_all
  have d: "drop n a = a ! n # drop (Suc n) a" "drop n b = b ! n # drop (Suc n) b"
    "drop n c = c ! n # drop (Suc n) c"
    using n by (simp_all add: Cons_nth_drop_Suc)
  have e: "(?pa @ drop n a) ! n = a ! n" "(?pb @ drop n b) ! n = b ! n"
    "(?pc @ drop n c) ! n = c ! n"
    by (simp_all add: nth_append d)
  have u: "(?pa @ drop n a)[n := x] = ?pa @ x # drop (Suc n) a"
    "(?pb @ drop n b)[n := y] = ?pb @ y # drop (Suc n) b"
    "(?pc @ drop n c)[n := z] = ?pc @ z # drop (Suc n) c" for x y z
    by (simp_all add: list_update_append d)
  show ?case
    using Suc by (simp add: e u split: prod.splits)
qed


lemma peaks_from_sh_loop_map:
  "peaks_from_sh_loop pd B thr np nrm shm
   = (map (\<lambda>v. fst (peaks_from_sh_rows pd B thr np nrm v
             (replicate np (Fin 0, Fin 0, Fin 0), replicate np (Fin 0), replicate np (- 1)))) shm,
      map (\<lambda>v. fst (snd (peaks_from_sh_rows pd B thr np nrm v
             (replicate np (Fin 0, Fin 0, Fin 0), replicate np (Fin 0), replicate np (- 1))))) shm,
      map (\<lambda>v. snd (snd (peaks_from_sh_rows pd B thr np nrm v
             (replicate np (Fin 0, Fin 0, Fin 0), replicate np (Fin 0), replicate np (- 1))))) shm)"
proof -
  let ?H = "\<lambda>i rows. peaks_from_sh_rows pd B thr np nrm (shm ! i) rows"
  let ?N = "length shm"
  let ?a = "replicate ?N (replicate np (Fin 0, Fin 0, Fin 0))"
  let ?b = "replicate ?N (replicate np (Fin 0))"
  let ?c = "replicate ?N (replicate np (- 1 :: int))"
  have b: "peaks_from_sh_body pd B thr np nrm shm
      = (\<lambda>i st. case st of (a, b, c) \<Rightarrow>
           (case ?H i (a ! i, b ! i, c ! i) of (x, y, z) \<Rightarrow> (a[i := x], b[i := y], c[i := z])))"
    by (intro ext) (auto simp: peaks_from_sh_body_rows split: prod.splits)
  have f: "fold (\<lambda>i st. case st of (a, b, c) \<Rightarrow>
                  (case ?H i (a ! i, b ! i, c ! i) of (x, y, z) \<Rightarrow> (a[i := x], b[i := y], c[i := z])))
           [0..<?N] (?a, ?b, ?c)
         = (map (\<lambda>i. fst (?H i (?a ! i, ?b ! i, ?c ! i))) [0..<?N] @ drop ?N ?a,
            map (\<lambda>i. fst (snd (?H i (?a ! i, ?b ! i, ?c ! i)))) [0..<?N] @ drop ?N ?b,
            map (\<lambda>i. snd (snd (?H i (?a ! i, ?b ! i, ?c ! i)))) [0..<?N] @ drop ?N ?c)"
    by (rule fold_index_update3) simp_all
  have m: "map (\<lambda>i. g (?H i (?a ! i, ?b ! i, ?c ! i))) [0..<?N]
      = map (\<lambda>v. g (peaks_from_sh_rows pd B thr np nrm v
             (replicate np (Fin 0, Fin 0, Fin 0), replicate np (Fin 0), replicate np (- 1)))) shm"
    for g :: "fvec3 list \<times> fnum list \<times> int list \<Rightarrow> 'x"
    by (rule nth_equalityI) simp_all
  show ?thesis
    unfolding peaks_from_sh_loop_def Let_def b f
    using m[of fst] m[of "\<lambda>r. fst (snd r)"] m[of "\<lambda>r. snd (snd r)"] by simp
qed

lemma fold_peaks_merge:
  "fold (peaks_from_sh_merge cl) (enumerate k rs) (a, b, c)
   = (fold (\<lambda>ir tmp. set_slice tmp (cl ! fst ir) (cl ! (fst ir + 1)) (snd ir))
        (enumerate k (map fst rs)) a,
      fold (\<lambda>ir tmp. set_slice tmp (cl ! fst ir) (cl ! (fst ir + 1)) (snd ir))
        (enumerate k (map (\<lambda>r. fst (snd r)) rs)) b,
      fold (\<lambda>ir tmp. set_slice tmp (cl ! fst ir) (cl ! (fst ir + 1)) (snd ir))
        (enumerate k (map (\<lambda>r. snd (snd r)) rs)) c)"
  by (induction rs arbitrary: k a b c) (auto simp: peaks_from_sh_merge_def Let_def)

theorem peaks_from_sh_worker_count:
  assumes "0 < n"
  shows "peaks_from_sh np_sum cpu_count peak_directions B shm_coeff mask_opt absolute_threshold
           normalize_peaks npeaks (Some n)
         = peaks_from_sh np_sum cpu_count peak_directions B shm_coeff mask_opt absolute_threshold
           normalize_peaks npeaks (Some 1)"
proof (cases "n = 1")
  case True
  then show ?thesis by simp
next
  case False
  define msk where "msk = (case mask_opt of None \<Rightarrow> default_mask np_sum shm_coeff | Some m \<Rightarrow> m)"
  define R where "R = (\<lambda>v. peaks_from_sh_rows peak_directions B absolute_threshold npeaks
      normalize_peaks v
      (replicate npeaks (Fin 0, Fin 0, Fin 0), replicate npeaks (Fin 0), replicate npeaks (- 1)))"
  define loop where "loop = peaks_from_sh_loop peak_directions B absolute_threshold npeaks
      normalize_peaks"
  have lm: "loop c = (map (\<lambda>v. fst (R v)) c, map (\<lambda>v. fst (snd (R v))) c,
      map (\<lambda>v. snd (snd (R v))) c)" for c
    unfolding loop_def R_def by (rule peaks_from_sh_loop_map)
  have par: "(case array_split (masked shm_coeff msk) n of
          Inl e \<Rightarrow> Inl e
        | Inr chunks \<Rightarrow>
            Inr (fold (peaks_from_sh_merge (cumsum (0 # map length chunks)))
                  (enumerate 0 (map loop chunks))
                  (replicate (count_nonzero msk) za, replicate (count_nonzero msk) zb,
                   replicate (count_nonzero msk) zc)))
      = Inr (loop (masked shm_coeff msk))"
    if "length msk = length shm_coeff" for za zb zc
  proof -
    obtain chunks where c: "array_split (masked shm_coeff msk) n = Inr chunks"
      using assms by (auto simp: array_split_def Let_def)
    have l: "count_nonzero msk = length (masked shm_coeff msk)"
      using length_masked[OF that] by simp
    have m: "map (fst \<circ> loop) chunks = map (map (\<lambda>v. fst (R v))) chunks"
      "map ((\<lambda>r. fst (snd r)) \<circ> loop) chunks = map (map (\<lambda>v. fst (snd (R v)))) chunks"
      "map ((\<lambda>r. snd (snd r)) \<circ> loop) chunks = map (map (\<lambda>v. snd (snd (R v)))) chunks"
      by (simp_all add: lm)
    note A = chunked_map[OF c, of "\<lambda>v. fst (R v)" za]
    note B = chunked_map[OF c, of "\<lambda>v. fst (snd (R v))" zb]
    note C = chunked_map[OF c, of "\<lambda>v. snd (snd (R v))" zc]
    show ?thesis
      unfolding c l fold_peaks_merge
      using A B C by (simp add: m lm)
  qed
  show ?thesis
    unfolding peaks_from_sh_def Let_def msk_def[symmetric] loop_def[symmetric]
    using assms False par by simp
qed

end
